theory Spec2Isabelle
  imports Main
begin

section \<open>Data model (frontend/src/lib/api.ts, lines 13-69)\<close>

text \<open>
  The TypeScript interfaces become records. A field marked optional (\<open>?\<close>) is an
  \<open>option\<close>. Field names are the source's; \<open>id\<close>, \<open>name\<close>, \<open>description\<close>,
  \<open>created_at\<close> and \<open>updated_at\<close> occur in several interfaces and carry the interface
  as a prefix where they would clash.
\<close>

record Permission =
  perm_id :: string
  perm_name :: string
  perm_description :: "string option"
  resource :: string
  action :: string
  perm_created_at :: string

record Role =
  role_id :: string
  role_name :: string
  role_description :: "string option"
  is_system_role :: bool
  role_created_at :: string
  role_updated_at :: string
  permissions :: "Permission list"

record User =
  user_id :: string
  email :: string
  username :: "string option"
  first_name :: string
  last_name :: string
  phone_number :: "string option"
  bio :: "string option"
  timezone :: string
  language :: string
  is_active :: bool
  is_verified :: bool
  is_superuser :: bool
  is_2fa_enabled :: bool
  last_login :: "string option"
  created_at :: string
  updated_at :: string
  roles :: "Role list"

record Token =
  access_token :: string
  refresh_token :: string
  token_type :: string
  expires_in :: int

record LoginRequest =
  req_email :: string
  req_password :: string
  remember_me :: "bool option"

record LoginResponse =
  resp_user :: User
  resp_token :: Token
  message :: string

text \<open>
  \<open>Partial<User>\<close>, the argument of \<open>updateUser\<close>: every key of \<open>User\<close> may be
  absent (\<open>None\<close>) or present with a value of the field's type.
\<close>

record UserUpdates =
  upd_user_id :: "string option"
  upd_email :: "string option"
  upd_username :: "string option option"
  upd_first_name :: "string option"
  upd_last_name :: "string option"
  upd_phone_number :: "string option option"
  upd_bio :: "string option option"
  upd_timezone :: "string option"
  upd_language :: "string option"
  upd_is_active :: "bool option"
  upd_is_verified :: "bool option"
  upd_is_superuser :: "bool option"
  upd_is_2fa_enabled :: "bool option"
  upd_last_login :: "string option option"
  upd_created_at :: "string option"
  upd_updated_at :: "string option"
  upd_roles :: "Role list option"

section \<open>The auth store (frontend/src/store/auth.ts)\<close>

record AuthState =
  user :: "User option"
  isAuthenticated :: bool
  isLoading :: bool

text \<open>Lines 27-29: the state the store is created with.\<close>

definition initial_state :: AuthState where
  "initial_state = \<lparr>user = None, isAuthenticated = False, isLoading = False\<rparr>"

text \<open>Lines 31-35. \<open>!!user\<close> is true exactly for a non-null user object.\<close>

definition setUser :: "User option \<Rightarrow> AuthState \<Rightarrow> AuthState" where
  "setUser u st = st\<lparr>user := u, isAuthenticated := (u \<noteq> None)\<rparr>"

text \<open>Lines 37-38.\<close>

definition setLoading :: "bool \<Rightarrow> AuthState \<Rightarrow> AuthState" where
  "setLoading l st = st\<lparr>isLoading := l\<rparr>"

text \<open>Lines 40-45. The argument has type \<open>User\<close>: it is never null.\<close>

definition login :: "User \<Rightarrow> AuthState \<Rightarrow> AuthState" where
  "login u st = st\<lparr>user := Some u, isAuthenticated := True, isLoading := False\<rparr>"

text \<open>Lines 47-52.\<close>

definition logout :: "AuthState \<Rightarrow> AuthState" where
  "logout st = st\<lparr>user := None, isAuthenticated := False, isLoading := False\<rparr>"

text \<open>
  The object spread \<open>{ ...state.user, ...updates }\<close> of line 56: a key present in
  \<open>updates\<close> overrides the user's value, an absent key keeps it.
\<close>

definition spread :: "User \<Rightarrow> UserUpdates \<Rightarrow> User" where
  "spread u upd =
     \<lparr>user_id = (case upd_user_id upd of None \<Rightarrow> user_id u | Some v \<Rightarrow> v),
      email = (case upd_email upd of None \<Rightarrow> email u | Some v \<Rightarrow> v),
      username = (case upd_username upd of None \<Rightarrow> username u | Some v \<Rightarrow> v),
      first_name = (case upd_first_name upd of None \<Rightarrow> first_name u | Some v \<Rightarrow> v),
      last_name = (case upd_last_name upd of None \<Rightarrow> last_name u | Some v \<Rightarrow> v),
      phone_number = (case upd_phone_number upd of None \<Rightarrow> phone_number u | Some v \<Rightarrow> v),
      bio = (case upd_bio upd of None \<Rightarrow> bio u | Some v \<Rightarrow> v),
      timezone = (case upd_timezone upd of None \<Rightarrow> timezone u | Some v \<Rightarrow> v),
      language = (case upd_language upd of None \<Rightarrow> language u | Some v \<Rightarrow> v),
      is_active = (case upd_is_active upd of None \<Rightarrow> is_active u | Some v \<Rightarrow> v),
      is_verified = (case upd_is_verified upd of None \<Rightarrow> is_verified u | Some v \<Rightarrow> v),
      is_superuser = (case upd_is_superuser upd of None \<Rightarrow> is_superuser u | Some v \<Rightarrow> v),
      is_2fa_enabled =
        (case upd_is_2fa_enabled upd of None \<Rightarrow> is_2fa_enabled u | Some v \<Rightarrow> v),
      last_login = (case upd_last_login upd of None \<Rightarrow> last_login u | Some v \<Rightarrow> v),
      created_at = (case upd_created_at upd of None \<Rightarrow> created_at u | Some v \<Rightarrow> v),
      updated_at = (case upd_updated_at upd of None \<Rightarrow> updated_at u | Some v \<Rightarrow> v),
      roles = (case upd_roles upd of None \<Rightarrow> roles u | Some v \<Rightarrow> v)\<rparr>"

text \<open>Lines 54-57: only the \<open>user\<close> key is set; the flags are not touched.\<close>

definition updateUser :: "UserUpdates \<Rightarrow> AuthState \<Rightarrow> AuthState" where
  "updateUser updates st =
     st\<lparr>user := (case user st of Some u \<Rightarrow> Some (spread u updates) | None \<Rightarrow> None)\<rparr>"

subsection \<open>Permission evaluation (lines 59-95)\<close>

text \<open>
  Every function starts with \<open>if (!user || !user.roles) return false\<close>. The field
  \<open>roles\<close> has type \<open>Role[]\<close>, and every array (the empty one too) is truthy in
  JavaScript, so for a user of the declared type the second disjunct is false:
  the guard is the test for a null user.
  \<open>Array.prototype.some\<close> is \<open>list_ex\<close>, \<open>every\<close> is \<open>list_all\<close>,
  \<open>includes\<close> on strings is list membership.
\<close>

definition hasPermission :: "AuthState \<Rightarrow> string \<Rightarrow> bool" where
  "hasPermission st permission =
     (case user st of
        None \<Rightarrow> False
      | Some u \<Rightarrow>
          if is_superuser u then True
          else list_ex (\<lambda>role. list_ex (\<lambda>perm. perm_name perm = permission) (permissions role))
                 (roles u))"

definition hasRole :: "AuthState \<Rightarrow> string \<Rightarrow> bool" where
  "hasRole st roleName =
     (case user st of
        None \<Rightarrow> False
      | Some u \<Rightarrow> list_ex (\<lambda>role. role_name role = roleName) (roles u))"

definition hasAnyRole :: "AuthState \<Rightarrow> string list \<Rightarrow> bool" where
  "hasAnyRole st roleNames =
     (case user st of
        None \<Rightarrow> False
      | Some u \<Rightarrow> list_ex (\<lambda>role. role_name role \<in> set roleNames) (roles u))"

definition hasAnyPermission :: "AuthState \<Rightarrow> string list \<Rightarrow> bool" where
  "hasAnyPermission st perms =
     (case user st of
        None \<Rightarrow> False
      | Some u \<Rightarrow>
          if is_superuser u then True
          else list_ex (\<lambda>permission. hasPermission st permission) perms)"

subsection \<open>The gate of ProtectedRoute.tsx (PermissionGate, lines 86-100)\<close>

text \<open>
  \<open>useHasPermission(p)\<close> and \<open>useHasRole(r)\<close> (auth.ts, lines 113-117) read
  \<open>hasPermission(p)\<close> and \<open>hasRole(r)\<close> of the store. The flag \<open>requireAll\<close>
  chooses between \<open>every\<close> and \<open>some\<close>; an empty requirement list passes
  before either is consulted.
\<close>

definition hasRequiredPermissions :: "AuthState \<Rightarrow> string list \<Rightarrow> bool \<Rightarrow> bool" where
  "hasRequiredPermissions st requiredPermissions requireAll =
     (length requiredPermissions = 0 \<or>
      (if requireAll then list_all (\<lambda>permission. hasPermission st permission) requiredPermissions
       else list_ex (\<lambda>permission. hasPermission st permission) requiredPermissions))"

definition hasRequiredRoles :: "AuthState \<Rightarrow> string list \<Rightarrow> bool \<Rightarrow> bool" where
  "hasRequiredRoles st requiredRoles requireAll =
     (length requiredRoles = 0 \<or>
      (if requireAll then list_all (\<lambda>role. hasRole st role) requiredRoles
       else list_ex (\<lambda>role. hasRole st role) requiredRoles))"

definition hasAccess :: "AuthState \<Rightarrow> string list \<Rightarrow> string list \<Rightarrow> bool \<Rightarrow> bool" where
  "hasAccess st requiredPermissions requiredRoles requireAll =
     (hasRequiredPermissions st requiredPermissions requireAll \<and>
      hasRequiredRoles st requiredRoles requireAll)"

section \<open>The API client (frontend/src/lib/api.ts, class APIClient)\<close>

subsection \<open>State shared by the client and the components\<close>

text \<open>
  One request handed to the transport, as the backend sees it: the path, the bearer
  token of the \<open>Authorization\<close> header (if any), the \<open>_retry\<close> mark of its
  configuration and, for the refresh exchange, the refresh token of the body.
\<close>

record Request =
  url :: string
  authorization :: "string option"
  retry :: bool
  body_refresh_token :: "string option"

text \<open>
  The mutable state of the running page: the auth store, the two storage mediums
  (the cookies written through js-cookie and \<open>localStorage\<close>, each with the keys
  \<open>access_token\<close> and \<open>refresh_token\<close>), the client's field \<open>refreshPromise\<close>
  (\<open>None\<close> is \<open>null\<close>; a promise is named by a number), and the trace of the requests
  sent so far. The trace is not a variable of the program: it records the calls
  made to the backend so that they can be counted.
\<close>

record App =
  store :: AuthState
  cookie_access_token :: "string option"
  cookie_refresh_token :: "string option"
  local_access_token :: "string option"
  local_refresh_token :: "string option"
  refreshPromise :: "nat option"
  sent :: "Request list"

text \<open>
  JavaScript truthiness of a value of type \<open>string | null | undefined\<close>: null,
  undefined and the empty string are falsy. \<open>a || b\<close> is \<open>a\<close> when \<open>a\<close> is truthy
  and \<open>b\<close> otherwise.
\<close>

definition truthy :: "string option \<Rightarrow> bool" where
  "truthy t = (case t of None \<Rightarrow> False | Some v \<Rightarrow> v \<noteq> [])"

definition js_or :: "string option \<Rightarrow> string option \<Rightarrow> string option" where
  "js_or a b = (if truthy a then a else b)"

text \<open>Lines 183-189.\<close>

definition getAccessToken :: "App \<Rightarrow> string option" where
  "getAccessToken s = js_or (cookie_access_token s) (local_access_token s)"

definition getRefreshToken :: "App \<Rightarrow> string option" where
  "getRefreshToken s = js_or (cookie_refresh_token s) (local_refresh_token s)"

text \<open>
  Lines 191-201. The cookie attributes (seven days, secure, same-site) are not
  modelled: time does not pass in this model.
\<close>

definition setTokens :: "string \<Rightarrow> string \<Rightarrow> bool \<Rightarrow> App \<Rightarrow> App" where
  "setTokens accessToken refreshToken rememberMe s =
     (if rememberMe
      then s\<lparr>cookie_access_token := Some accessToken, cookie_refresh_token := Some refreshToken\<rparr>
      else s\<lparr>local_access_token := Some accessToken, local_refresh_token := Some refreshToken\<rparr>)"

text \<open>Lines 203-208.\<close>

definition clearTokens :: "App \<Rightarrow> App" where
  "clearTokens s =
     s\<lparr>cookie_access_token := None, cookie_refresh_token := None,
       local_access_token := None, local_refresh_token := None\<rparr>"

subsection \<open>Sending a request\<close>

text \<open>
  The request interceptor (lines 127-134) overwrites the \<open>Authorization\<close> header with
  the stored access token when there is one, and leaves the header the
  configuration already carries otherwise. \<open>dispatch\<close> runs it and hands the request
  to the transport.
\<close>

definition attach :: "App \<Rightarrow> string option \<Rightarrow> string option" where
  "attach s header = (let token = getAccessToken s in if truthy token then token else header)"

definition dispatch :: "string \<Rightarrow> string option \<Rightarrow> bool \<Rightarrow> string option \<Rightarrow> App \<Rightarrow> App" where
  "dispatch u header r body s =
     s\<lparr>sent := sent s @
        [\<lparr>url = u, authorization = attach s header, retry = r, body_refresh_token = body\<rparr>]\<rparr>"

text \<open>The number of refresh exchanges sent to the backend so far.\<close>

definition exchanges :: "App \<Rightarrow> nat" where
  "exchanges s = length (filter (\<lambda>r. url r = ''/auth/refresh'') (sent s))"

text \<open>
  What the backend answers to one request: a 2xx response with its data, a response
  with another status (axios rejects the promise, \<open>error.response.status\<close> is the
  number), or no response at all (transport failure or the 30 s timeout).
\<close>

datatype 'a reply = Ok 'a | HttpError nat | NetworkError

text \<open>The \<open>AxiosError\<close> a caller receives: with a response status, or without response.\<close>

datatype failure = Status nat | Network

text \<open>
  The fate of a promise: resolved with a value, rejected with an error, or pending for
  ever. \<open>settled\<close> is the fate of a promise that cannot reject.
\<close>

datatype 'a outcome = is_Resolved: Resolved 'a | Rejected failure | Pending

datatype 'a settled = Settled 'a | NeverSettles

subsection \<open>refreshAccessToken (lines 210-243)\<close>

text \<open>
  The body of \<open>refreshAccessToken\<close> contains no \<open>await\<close>: a call runs from line 211
  to its \<open>return\<close> without interruption. \<open>refreshAccessToken_call\<close> is that
  synchronous part. It returns the promise the caller awaits (\<open>None\<close> for the
  \<open>null\<close> of line 217). A new promise is named by the position of its exchange in
  the trace.
\<close>

definition refreshAccessToken_call :: "App \<Rightarrow> App \<times> nat option" where
  "refreshAccessToken_call s =
     (case refreshPromise s of
        Some p \<Rightarrow> (s, Some p)
      | None \<Rightarrow>
          (let refreshToken = getRefreshToken s in
           if \<not> truthy refreshToken then (s, None)
           else
             (let p = length (sent s);
                  s' = dispatch ''/auth/refresh'' None False refreshToken s
              in (s'\<lparr>refreshPromise := Some p\<rparr>, Some p))))"

text \<open>
  The callbacks of lines 222-240, run when the backend's answer to the exchange
  arrives.
  \<^item> 2xx: the new access token is written over the cookie when a cookie access token
    is there, into \<open>localStorage\<close> otherwise; the promise resolves with it. Only
    \<open>access_token\<close> is read from the response.
  \<^item> A status other than 401, or no response: the response interceptor rejects
    (line 162), \<open>.catch\<close> clears the tokens and the promise resolves with \<open>null\<close>.
  \<^item> Status 401: the exchange is itself a request of \<open>this.client\<close>, so the response
    interceptor (line 144) runs for it with \<open>_retry\<close> unset and awaits
    \<open>this.refreshAccessToken()\<close> (line 148). \<open>refreshPromise\<close> is still set (it is
    reset only in \<open>.finally\<close>), so line 212 returns the very promise whose settling
    waits for this interceptor: neither ever settles, and no callback of lines
    222-240 runs.
  In the first two cases \<open>.finally\<close> resets \<open>refreshPromise\<close>. The promise never
  rejects, so the \<open>catch (refreshError)\<close> block of lines 153-157 cannot run.
\<close>

definition refreshAccessToken_settle :: "Token reply \<Rightarrow> App \<Rightarrow> App \<times> string option settled" where
  "refreshAccessToken_settle r s =
     (case r of
        Ok data \<Rightarrow>
          (let s' = (if truthy (cookie_access_token s)
                     then s\<lparr>cookie_access_token := Some (access_token data)\<rparr>
                     else s\<lparr>local_access_token := Some (access_token data)\<rparr>)
           in (s'\<lparr>refreshPromise := None\<rparr>, Settled (Some (access_token data))))
      | HttpError status \<Rightarrow>
          if status = 401 then (s, NeverSettles)
          else ((clearTokens s)\<lparr>refreshPromise := None\<rparr>, Settled None)
      | NetworkError \<Rightarrow> ((clearTokens s)\<lparr>refreshPromise := None\<rparr>, Settled None))"

text \<open>
  A call of \<open>refreshAccessToken\<close> awaited to its end, when nothing else runs in
  between: the synchronous part, then (unless it returned \<open>null\<close>) the settling of
  the promise it returned with the backend's answer to the exchange.
\<close>

definition refreshAccessToken :: "Token reply \<Rightarrow> App \<Rightarrow> App \<times> string option settled" where
  "refreshAccessToken r s =
     (case refreshAccessToken_call s of
        (s', None) \<Rightarrow> (s', Settled None)
      | (s', Some p) \<Rightarrow> refreshAccessToken_settle r s')"


subsection \<open>A request through the interceptors (lines 125-165)\<close>

text \<open>
  The answers of the backend to the (at most three) requests one call can cause: to
  the request itself, to the refresh exchange, and to the request sent again.
\<close>

record 'a Backend =
  reply_first :: "'a reply"
  reply_refresh :: "Token reply"
  reply_retry :: "'a reply"

text \<open>
  A call \<open>this.client.get(u)\<close> or \<open>this.client.post(u, ...)\<close> for a path \<open>u\<close> other
  than the refresh exchange, followed to the settling of its promise.
  \<^item> A 2xx answer resolves (line 140).
  \<^item> A 401 answer to a request not marked \<open>_retry\<close> marks it and awaits
    \<open>refreshAccessToken\<close>. A truthy token is put into the header and the request is
    sent again through the same client (line 151): the request interceptor runs
    again, and a failure of the second attempt finds \<open>_retry\<close> set, so that it is
    passed to \<open>handleError\<close> and rejected (lines 161-162). With \<open>null\<close> the first
    error is rejected (lines 161-162).
  \<^item> Every other failure is rejected (lines 161-162).
  \<open>handleError\<close> only shows a toast and is left out.
\<close>

definition client_request :: "string \<Rightarrow> 'a Backend \<Rightarrow> App \<Rightarrow> App \<times> 'a outcome" where
  "client_request u be s =
     (let s1 = dispatch u None False None s in
      case reply_first be of
        Ok data \<Rightarrow> (s1, Resolved data)
      | NetworkError \<Rightarrow> (s1, Rejected Network)
      | HttpError status \<Rightarrow>
          if status = 401 then
            (case refreshAccessToken (reply_refresh be) s1 of
               (s2, NeverSettles) \<Rightarrow> (s2, Pending)
             | (s2, Settled newToken) \<Rightarrow>
                 if truthy newToken then
                   (let s3 = dispatch u newToken True None s2 in
                    case reply_retry be of
                      Ok data \<Rightarrow> (s3, Resolved data)
                    | HttpError status' \<Rightarrow> (s3, Rejected (Status status'))
                    | NetworkError \<Rightarrow> (s3, Rejected Network))
                 else (s2, Rejected (Status 401)))
          else (s1, Rejected (Status status)))"

subsection \<open>The methods used by the login form and the bootstrap\<close>

text \<open>
  \<open>APIClient.login\<close>, lines 246-253. An undefined \<open>remember_me\<close> takes the default
  \<open>false\<close> of \<open>setTokens\<close>.
\<close>

definition apiClient_login ::
  "LoginRequest \<Rightarrow> LoginResponse Backend \<Rightarrow> App \<Rightarrow> App \<times> LoginResponse outcome" where
  "apiClient_login credentials be s =
     (case client_request ''/auth/login'' be s of
        (s', Resolved data) \<Rightarrow>
          (setTokens (access_token (resp_token data)) (refresh_token (resp_token data))
             (case remember_me credentials of None \<Rightarrow> False | Some b \<Rightarrow> b) s',
           Resolved data)
      | (s', Rejected e) \<Rightarrow> (s', Rejected e)
      | (s', Pending) \<Rightarrow> (s', Pending))"

text \<open>\<open>APIClient.getCurrentUser\<close>, lines 274-277.\<close>

definition getCurrentUser :: "User Backend \<Rightarrow> App \<Rightarrow> App \<times> User outcome" where
  "getCurrentUser be s = client_request ''/auth/me'' be s"

text \<open>\<open>APIClient.login2FA\<close>, lines 363-366. The code travels in the body.\<close>

definition login2FA :: "string \<Rightarrow> LoginResponse Backend \<Rightarrow> App \<Rightarrow> App \<times> LoginResponse outcome" where
  "login2FA code be s = client_request ''/auth/login/2fa'' be s"

section \<open>The login form (LoginForm, lines 29-118 of its file)\<close>

text \<open>The \<open>useState\<close> cells of the component.\<close>

record LoginForm =
  showPassword :: bool
  form_isLoading :: bool
  show2FA :: bool
  tempToken :: string

text \<open>
  \<open>onSubmit\<close>, lines 49-78. When the response carries the message
  \<open>Two-factor authentication required\<close> the handler returns before the store's
  \<open>login\<close> is called. The toasts and the navigation that follows a login are left
  out. A call that never settles leaves the form loading.
\<close>

definition onSubmit ::
  "LoginRequest \<Rightarrow> LoginResponse Backend \<Rightarrow> LoginForm \<times> App \<Rightarrow> LoginForm \<times> App" where
  "onSubmit data be fa =
     (case fa of (f, s) \<Rightarrow>
        (let f1 = f\<lparr>form_isLoading := True\<rparr> in
         case apiClient_login data be s of
           (s', Resolved response) \<Rightarrow>
             if message response = ''Two-factor authentication required''
             then (f1\<lparr>show2FA := True, tempToken := access_token (resp_token response),
                      form_isLoading := False\<rparr>, s')
             else (f1\<lparr>form_isLoading := False\<rparr>,
                   s'\<lparr>store := login (resp_user response) (store s')\<rparr>)
         | (s', Rejected e) \<Rightarrow> (f1\<lparr>form_isLoading := False\<rparr>, s')
         | (s', Pending) \<Rightarrow> (f1, s')))"

text \<open>
  \<open>handle2FASubmit\<close>, lines 80-117. The temporary token replaces the access token
  of \<open>localStorage\<close> for the verification call. On success the real pair is written
  to \<open>localStorage\<close> and the store's \<open>login\<close> is called; on failure the \<open>catch\<close>
  block reads the access token of \<open>localStorage\<close> again and removes it unless it is
  truthy and differs from the temporary token.
\<close>

definition handle2FASubmit ::
  "string \<Rightarrow> LoginResponse Backend \<Rightarrow> LoginForm \<times> App \<Rightarrow> LoginForm \<times> App" where
  "handle2FASubmit code be fa =
     (case fa of (f, s) \<Rightarrow>
        (let f1 = f\<lparr>form_isLoading := True\<rparr>;
             s1 = s\<lparr>local_access_token := Some (tempToken f)\<rparr>
         in
         case login2FA code be s1 of
           (s2, Resolved response) \<Rightarrow>
             (f1\<lparr>form_isLoading := False\<rparr>,
              s2\<lparr>local_access_token := Some (access_token (resp_token response)),
                 local_refresh_token := Some (refresh_token (resp_token response)),
                 store := login (resp_user response) (store s2)\<rparr>)
         | (s2, Rejected e) \<Rightarrow>
             (let originalToken = local_access_token s2 in
              (f1\<lparr>form_isLoading := False\<rparr>,
               if truthy originalToken \<and> originalToken \<noteq> Some (tempToken f)
               then s2\<lparr>local_access_token := originalToken\<rparr>
               else s2\<lparr>local_access_token := None\<rparr>))
         | (s2, Pending) \<Rightarrow> (f1, s2)))"

text \<open>
  A login that awaits its second factor: \<open>onSubmit\<close> has shown the code form, and
  every code submitted since has failed to be verified (the verification call was
  rejected or is still pending). \<open>unverified_codes\<close> runs \<open>handle2FASubmit\<close> for
  a list of codes, each with the backend's answers to it, and gives the state
  reached, or \<open>None\<close> when one of the codes is verified.
\<close>

fun unverified_codes ::
  "(string \<times> LoginResponse Backend) list \<Rightarrow> LoginForm \<times> App \<Rightarrow> (LoginForm \<times> App) option" where
  "unverified_codes [] fa = Some fa"
| "unverified_codes ((code, be) # rest) fa =
     (if is_Resolved
           (snd (login2FA code be ((snd fa)\<lparr>local_access_token := Some (tempToken (fst fa))\<rparr>)))
      then None
      else unverified_codes rest (handle2FASubmit code be fa))"

section \<open>Session bootstrap (AuthInitializer, lines 66-104 of the providers file)\<close>

text \<open>
  \<open>document.cookie.split('; ').find(row => row.startsWith('access_token='))?.split('=')[1]\<close>:
  the text between the first and the second \<open>=\<close> of the cookie's row, undefined
  without such a row. (js-cookie percent-encodes some characters of a value, but never
  \<open>=\<close>, and an encoded value is empty exactly when the value is.)
\<close>

definition document_cookie_access_token :: "App \<Rightarrow> string option" where
  "document_cookie_access_token s =
     map_option (takeWhile (\<lambda>c. c \<noteq> CHR ''='')) (cookie_access_token s)"

text \<open>
  \<open>initializeAuth\<close>, lines 71-98. \<open>finally\<close> runs \<open>setLoading(false)\<close> once the
  \<open>try\<close> or the \<open>catch\<close> block is left; while the awaited who-am-I call is pending
  nothing after it runs. The result says whether the function came to its end.
\<close>

definition initializeAuth :: "User Backend \<Rightarrow> App \<Rightarrow> App \<times> unit settled" where
  "initializeAuth be s =
     (let s1 = s\<lparr>store := setLoading True (store s)\<rparr>;
          accessToken = js_or (local_access_token s1) (document_cookie_access_token s1)
      in
      if truthy accessToken then
        (case getCurrentUser be s1 of
           (s2, Resolved u) \<Rightarrow>
             (s2\<lparr>store := setLoading False (setUser (Some u) (store s2))\<rparr>, Settled ())
         | (s2, Rejected e) \<Rightarrow>
             (s2\<lparr>store := setLoading False (setUser None (store s2)),
                 local_access_token := None, local_refresh_token := None,
                 cookie_access_token := None, cookie_refresh_token := None\<rparr>, Settled ())
         | (s2, Pending) \<Rightarrow> (s2, NeverSettles))
      else (s1\<lparr>store := setLoading False (setUser None (store s1))\<rparr>, Settled ()))"

section \<open>Sequences of store operations\<close>

datatype store_op =
  SetUser "User option" | SetLoading bool | Login User | Logout | UpdateUser UserUpdates

fun apply_op :: "store_op \<Rightarrow> AuthState \<Rightarrow> AuthState" where
  "apply_op (SetUser u) st = setUser u st"
| "apply_op (SetLoading l) st = setLoading l st"
| "apply_op (Login u) st = login u st"
| "apply_op Logout st = logout st"
| "apply_op (UpdateUser updates) st = updateUser updates st"

fun run_ops :: "store_op list \<Rightarrow> AuthState \<Rightarrow> AuthState" where
  "run_ops [] st = st"
| "run_ops (op # ops) st = run_ops ops (apply_op op st)"

definition consistent :: "AuthState \<Rightarrow> bool" where
  "consistent st = (isAuthenticated st = (user st \<noteq> None))"

section \<open>Concrete values\<close>

definition perm_A :: Permission where
  "perm_A = \<lparr>perm_id = ''p1'', perm_name = ''A'', perm_description = None,
             resource = ''users'', action = ''read'', perm_created_at = ''2024-01-01''\<rparr>"

definition perm_B :: Permission where
  "perm_B = \<lparr>perm_id = ''p2'', perm_name = ''B'', perm_description = None,
             resource = ''users'', action = ''create'', perm_created_at = ''2024-01-01''\<rparr>"

definition role_AB :: Role where
  "role_AB = \<lparr>role_id = ''r1'', role_name = ''editor'', role_description = None,
              is_system_role = False, role_created_at = ''2024-01-01'',
              role_updated_at = ''2024-01-01'', permissions = [perm_A, perm_B]\<rparr>"

definition staff :: User where
  "staff = \<lparr>user_id = ''u1'', email = ''a@x.com'', username = None, first_name = ''Ann'',
            last_name = ''Lee'', phone_number = None, bio = None, timezone = ''UTC'',
            language = ''en'', is_active = True, is_verified = True, is_superuser = False,
            is_2fa_enabled = False, last_login = None, created_at = ''2024-01-01'',
            updated_at = ''2024-01-01'', roles = [role_AB]\<rparr>"

definition root :: User where
  "root = staff\<lparr>user_id := ''u0'', email := ''root@x.com'', is_superuser := True, roles := []\<rparr>"

definition no_updates :: UserUpdates where
  "no_updates = \<lparr>upd_user_id = None, upd_email = None, upd_username = None,
     upd_first_name = None, upd_last_name = None, upd_phone_number = None, upd_bio = None,
     upd_timezone = None, upd_language = None, upd_is_active = None, upd_is_verified = None,
     upd_is_superuser = None, upd_is_2fa_enabled = None, upd_last_login = None,
     upd_created_at = None, upd_updated_at = None, upd_roles = None\<rparr>"

definition token1 :: Token where
  "token1 = \<lparr>access_token = ''a1'', refresh_token = ''r1'', token_type = ''bearer'',
             expires_in = 1800\<rparr>"

definition token2 :: Token where
  "token2 = \<lparr>access_token = ''a2'', refresh_token = ''r2'', token_type = ''bearer'',
             expires_in = 1800\<rparr>"

text \<open>A page just loaded, nobody logged in, both mediums empty.\<close>

definition fresh :: App where
  "fresh = \<lparr>store = initial_state, cookie_access_token = None, cookie_refresh_token = None,
            local_access_token = None, local_refresh_token = None, refreshPromise = None,
            sent = []\<rparr>"

text \<open>\<open>staff\<close> logged in without remember-me: the pair \<open>token1\<close> is in \<open>localStorage\<close>.\<close>

definition session :: App where
  "session = fresh\<lparr>store := login staff initial_state,
                   local_access_token := Some ''a1'', local_refresh_token := Some ''r1''\<rparr>"

definition blank_form :: LoginForm where
  "blank_form = \<lparr>showPassword = False, form_isLoading = False, show2FA = False, tempToken = []\<rparr>"

definition remember_login :: LoginRequest where
  "remember_login = \<lparr>req_email = ''a@x.com'', req_password = ''secret'', remember_me = Some True\<rparr>"

definition plain_login :: LoginRequest where
  "plain_login = \<lparr>req_email = ''a@x.com'', req_password = ''secret'', remember_me = Some False\<rparr>"

text \<open>The backend accepts the login at once and issues \<open>token2\<close>.\<close>

definition login_accepted :: "LoginResponse Backend" where
  "login_accepted =
     \<lparr>reply_first = Ok \<lparr>resp_user = staff, resp_token = token2, message = ''Login successful''\<rparr>,
      reply_refresh = NetworkError, reply_retry = NetworkError\<rparr>"

text \<open>The backend asks for the second factor of the superuser \<open>root\<close>.\<close>

definition second_factor_required :: "LoginResponse Backend" where
  "second_factor_required =
     \<lparr>reply_first = Ok \<lparr>resp_user = root, resp_token = token1,
                         message = ''Two-factor authentication required''\<rparr>,
      reply_refresh = NetworkError, reply_retry = NetworkError\<rparr>"

text \<open>The backend rejects the code with status 400.\<close>

definition code_rejected :: "LoginResponse Backend" where
  "code_rejected =
     \<lparr>reply_first = HttpError 400, reply_refresh = NetworkError, reply_retry = NetworkError\<rparr>"

text \<open>
  The access token is refused, the exchange issues \<open>token2\<close>, the request sent again
  is refused as well.
\<close>

definition refused_twice :: "unit Backend" where
  "refused_twice =
     \<lparr>reply_first = HttpError 401, reply_refresh = Ok token2, reply_retry = HttpError 401\<rparr>"

text \<open>The access token is refused and the exchange is refused with status 403.\<close>

definition refresh_refused :: "unit Backend" where
  "refresh_refused =
     \<lparr>reply_first = HttpError 401, reply_refresh = HttpError 403, reply_retry = NetworkError\<rparr>"

text \<open>The access token is refused and the exchange is refused with status 401.\<close>

definition refresh_unauthorized :: "User Backend" where
  "refresh_unauthorized =
     \<lparr>reply_first = HttpError 401, reply_refresh = HttpError 401, reply_retry = NetworkError\<rparr>"


text \<open>
  A login with remember-me from the fresh page, answered with the request for the
  second factor.
\<close>

definition second_factor_started :: "LoginForm \<times> App" where
  "second_factor_started = onSubmit remember_login second_factor_required (blank_form, fresh)"

section \<open>The permission evaluator and the store\<close>

text \<open>
  C2. For every state of the auth store and every permission name,
  \<open>hasPermission\<close> is true if and only if a user is set and either the user is a
  superuser or one of the user's roles has a permission of that name. For a
  superuser it is true for every name whatever the roles are, the empty role list
  included.
\<close>

theorem hasPermission_iff:
  "(hasPermission st name \<longleftrightarrow>
      (\<exists>u. user st = Some u \<and>
           (is_superuser u \<or>
            (\<exists>role\<in>set (roles u). \<exists>perm\<in>set (permissions role). perm_name perm = name))))
   \<and> hasPermission (st\<lparr>user := Some (u\<lparr>is_superuser := True, roles := rs\<rparr>)\<rparr>) name"
  by (cases "user st") (simp_all add: hasPermission_def list_ex_iff)

theorem hasPermission_iff_witness:
  "hasPermission (login staff initial_state) ''A'' \<and>
   \<not> hasPermission (login staff initial_state) ''C'' \<and>
   hasPermission (login root initial_state) ''anything.whatsoever''"
  using hasPermission_iff [where st = "login staff initial_state" and name = "''A''"]
        hasPermission_iff [where st = "login staff initial_state" and name = "''C''"]
        hasPermission_iff [where st = "login root initial_state" and name = "''anything.whatsoever''"]
  by (simp add: login_def initial_state_def staff_def root_def role_AB_def perm_A_def perm_B_def)

lemma consistent_apply_op: "consistent st \<Longrightarrow> consistent (apply_op op st)"
  by (cases op)
     (auto simp: consistent_def setUser_def setLoading_def login_def logout_def updateUser_def
           split: option.splits)

lemma consistent_run_ops: "consistent st \<Longrightarrow> consistent (run_ops ops st)"
  by (induction ops arbitrary: st) (simp_all add: consistent_apply_op)

text \<open>
  C10. Every store operation keeps the invariant that \<open>isAuthenticated\<close> is true
  exactly when \<open>user\<close> is set, so the invariant holds after every sequence of
  operations run from the initial state; \<open>updateUser\<close> on a state without user
  leaves the user unset and the flag as it was.
\<close>

theorem store_consistent:
  "(consistent st \<longrightarrow> consistent (apply_op op st)) \<and>
   consistent (run_ops ops initial_state) \<and>
   (user st = None \<longrightarrow>
      user (updateUser updates st) = None \<and>
      isAuthenticated (updateUser updates st) = isAuthenticated st)"
proof -
  have "consistent initial_state"
    by (simp add: consistent_def initial_state_def)
  then have "consistent (run_ops ops initial_state)"
    by (rule consistent_run_ops)
  moreover have "user st = None \<longrightarrow>
      user (updateUser updates st) = None \<and>
      isAuthenticated (updateUser updates st) = isAuthenticated st"
    by (simp add: updateUser_def)
  ultimately show ?thesis
    by (simp add: consistent_apply_op)
qed

theorem store_consistent_witness:
  "consistent initial_state \<and> consistent (apply_op (Login staff) initial_state) \<and>
   consistent (run_ops [Login staff, UpdateUser no_updates, Logout, UpdateUser no_updates]
                 initial_state) \<and>
   user initial_state = None \<and> user (updateUser no_updates initial_state) = None \<and>
   \<not> isAuthenticated (updateUser no_updates initial_state)"
  using store_consistent [of initial_state "Login staff"
          "[Login staff, UpdateUser no_updates, Logout, UpdateUser no_updates]" no_updates]
  by (simp add: consistent_def initial_state_def)

section \<open>The any and all combinators\<close>

text \<open>
  C7, as stated, fails on the empty list: for a superuser \<open>hasAnyPermission([])\<close>
  is true although no listed name is held (there is none).
\<close>

theorem any_passes_without_a_match_counterexample:
  "hasAnyPermission (login root initial_state) [] \<and>
   \<not> list_ex (hasPermission (login root initial_state)) []"
  by (simp add: hasAnyPermission_def login_def initial_state_def root_def)

text \<open>
  C7, amended. \<open>hasAnyPermission\<close> is true if and only if the user is a superuser
  or at least one listed name is held; \<open>hasAnyRole\<close> if and only if at least one
  listed role is held. The gate in its any mode passes if and only if the list is
  empty or at least one listed name is held, and in its all mode if and only if
  every listed name is held. With a role holding the permissions A and B, any of
  [A, C] is true and all of [A, C] is false.
\<close>

theorem any_all_semantics:
  "(hasAnyPermission st names \<longleftrightarrow>
      (\<exists>u. user st = Some u \<and> is_superuser u) \<or> (\<exists>n\<in>set names. hasPermission st n)) \<and>
   (hasAnyRole st names \<longleftrightarrow> (\<exists>n\<in>set names. hasRole st n)) \<and>
   (hasRequiredPermissions st names False \<longleftrightarrow>
      names = [] \<or> (\<exists>n\<in>set names. hasPermission st n)) \<and>
   (hasRequiredPermissions st names True \<longleftrightarrow> (\<forall>n\<in>set names. hasPermission st n)) \<and>
   (hasRequiredRoles st names False \<longleftrightarrow> names = [] \<or> (\<exists>n\<in>set names. hasRole st n)) \<and>
   (hasRequiredRoles st names True \<longleftrightarrow> (\<forall>n\<in>set names. hasRole st n)) \<and>
   hasAnyPermission (login staff initial_state) [''A'', ''C''] \<and>
   hasRequiredPermissions (login staff initial_state) [''A'', ''C''] False \<and>
   \<not> hasRequiredPermissions (login staff initial_state) [''A'', ''C''] True"
proof -
  have any_perm: "hasAnyPermission st names \<longleftrightarrow>
      (\<exists>u. user st = Some u \<and> is_superuser u) \<or> (\<exists>n\<in>set names. hasPermission st n)"
    by (cases "user st") (auto simp: hasAnyPermission_def hasPermission_def list_ex_iff)
  have any_role: "hasAnyRole st names \<longleftrightarrow> (\<exists>n\<in>set names. hasRole st n)"
    by (cases "user st") (auto simp: hasAnyRole_def hasRole_def list_ex_iff)
  have gate_any: "hasRequiredPermissions st names False \<longleftrightarrow>
      names = [] \<or> (\<exists>n\<in>set names. hasPermission st n)"
    by (simp add: hasRequiredPermissions_def list_ex_iff)
  have gate_all: "hasRequiredPermissions st names True \<longleftrightarrow> (\<forall>n\<in>set names. hasPermission st n)"
    by (auto simp: hasRequiredPermissions_def list_all_iff)
  have role_any: "hasRequiredRoles st names False \<longleftrightarrow>
      names = [] \<or> (\<exists>n\<in>set names. hasRole st n)"
    by (simp add: hasRequiredRoles_def list_ex_iff)
  have role_all: "hasRequiredRoles st names True \<longleftrightarrow> (\<forall>n\<in>set names. hasRole st n)"
    by (auto simp: hasRequiredRoles_def list_all_iff)
  have example: "hasAnyPermission (login staff initial_state) [''A'', ''C''] \<and>
      hasRequiredPermissions (login staff initial_state) [''A'', ''C''] False \<and>
      \<not> hasRequiredPermissions (login staff initial_state) [''A'', ''C''] True"
    by (simp add: hasAnyPermission_def hasRequiredPermissions_def hasPermission_def login_def
          initial_state_def staff_def role_AB_def perm_A_def perm_B_def)
  from any_perm any_role gate_any gate_all role_any role_all example show ?thesis
    by blast
qed

theorem any_all_semantics_witness:
  "hasAnyPermission (login staff initial_state) [''C'', ''B''] \<and>
   hasAnyRole (login staff initial_state) [''admin'', ''editor''] \<and>
   hasRequiredPermissions (login staff initial_state) [''B'', ''A''] True \<and>
   \<not> hasRequiredRoles (login staff initial_state) [''admin'', ''editor''] True \<and>
   hasRequiredRoles (login staff initial_state) [''admin'', ''editor''] False"
  using any_all_semantics [of "login staff initial_state" "[''C'', ''B'']"]
        any_all_semantics [of "login staff initial_state" "[''admin'', ''editor'']"]
        any_all_semantics [of "login staff initial_state" "[''B'', ''A'']"]
  by (simp add: hasPermission_def hasRole_def login_def initial_state_def staff_def role_AB_def
        perm_A_def perm_B_def)

section \<open>Single-flight refresh\<close>

lemma refreshAccessToken_call_idle:
  assumes "refreshPromise s = None" and "truthy (getRefreshToken s)"
  shows "refreshAccessToken_call s =
           ((dispatch ''/auth/refresh'' None False (getRefreshToken s) s)
              \<lparr>refreshPromise := Some (length (sent s))\<rparr>, Some (length (sent s)))"
  using assms by (simp add: refreshAccessToken_call_def Let_def)








section \<open>What a refresh stores\<close>

lemma refreshAccessToken_idle:
  assumes "refreshPromise s = None" and "truthy (getRefreshToken s)"
  shows "refreshAccessToken r s =
           refreshAccessToken_settle r
             ((dispatch ''/auth/refresh'' None False (getRefreshToken s) s)
                \<lparr>refreshPromise := Some (length (sent s))\<rparr>)"
  by (simp add: refreshAccessToken_def refreshAccessToken_call_idle [OF assms])

lemma refreshAccessToken_succeeds:
  assumes "refreshPromise s = None" and "truthy (getRefreshToken s)"
    and "refreshAccessToken (Ok data) s = (s', r)"
  shows "r = Settled (Some (access_token data)) \<and>
         (if truthy (cookie_access_token s)
          then cookie_access_token s' = Some (access_token data) \<and>
               local_access_token s' = local_access_token s
          else local_access_token s' = Some (access_token data) \<and>
               cookie_access_token s' = cookie_access_token s) \<and>
         (access_token data \<noteq> [] \<longrightarrow> getAccessToken s' = Some (access_token data)) \<and>
         cookie_refresh_token s' = cookie_refresh_token s \<and>
         local_refresh_token s' = local_refresh_token s \<and>
         getRefreshToken s' = getRefreshToken s \<and>
         refreshPromise s' = None \<and> store s' = store s"
  using assms(3) unfolding refreshAccessToken_idle [OF assms(1,2)]
  by (auto simp: refreshAccessToken_settle_def dispatch_def getRefreshToken_def
        getAccessToken_def js_or_def truthy_def Let_def)

text \<open>
  C4, as stated, fails: the session holds the refresh token \<open>r1\<close>, the exchange
  succeeds and returns the pair \<open>a2\<close>, \<open>r2\<close>; afterwards the stored refresh token is
  still \<open>r1\<close>.
\<close>

theorem refresh_keeps_old_refresh_token_counterexample:
  "snd (refreshAccessToken (Ok token2) session) = Settled (Some ''a2'') \<and>
   refresh_token token2 = ''r2'' \<and>
   getRefreshToken (fst (refreshAccessToken (Ok token2) session)) = Some ''r1'' \<and>
   local_refresh_token (fst (refreshAccessToken (Ok token2) session)) = Some ''r1'' \<and>
   cookie_refresh_token (fst (refreshAccessToken (Ok token2) session)) = None"
  by (simp add: refreshAccessToken_def refreshAccessToken_call_def refreshAccessToken_settle_def
        dispatch_def session_def fresh_def token2_def getRefreshToken_def js_or_def truthy_def
        Let_def)

text \<open>
  C4, amended. After a successful exchange (refresh token stored, no exchange in
  flight) the new access token replaces the stored one, in the cookies when a
  cookie access token was there and in \<open>localStorage\<close> otherwise, and is what
  \<open>getAccessToken\<close> returns from then on; the stored refresh token is the one
  stored before, in both mediums.
\<close>

theorem refresh_replaces_access_token_only:
  assumes "refreshPromise s = None" and "truthy (getRefreshToken s)"
    and "refreshAccessToken (Ok data) s = (s', r)"
  shows "r = Settled (Some (access_token data)) \<and>
         (if truthy (cookie_access_token s)
          then cookie_access_token s' = Some (access_token data) \<and>
               local_access_token s' = local_access_token s
          else local_access_token s' = Some (access_token data) \<and>
               cookie_access_token s' = cookie_access_token s) \<and>
         (access_token data \<noteq> [] \<longrightarrow> getAccessToken s' = Some (access_token data)) \<and>
         cookie_refresh_token s' = cookie_refresh_token s \<and>
         local_refresh_token s' = local_refresh_token s \<and>
         getRefreshToken s' = getRefreshToken s \<and>
         refreshPromise s' = None \<and> store s' = store s"
  using assms by (rule refreshAccessToken_succeeds)

theorem refresh_replaces_access_token_only_witness:
  "refreshPromise session = None \<and> truthy (getRefreshToken session) \<and>
   getAccessToken session = Some ''a1'' \<and>
   getAccessToken (fst (refreshAccessToken (Ok token2) session)) = Some ''a2'' \<and>
   getRefreshToken (fst (refreshAccessToken (Ok token2) session)) = Some ''r1''"
proof -
  have idle: "refreshPromise session = None" and tok: "truthy (getRefreshToken session)"
    and old: "getAccessToken session = Some ''a1''" "getRefreshToken session = Some ''r1''"
    by (simp_all add: session_def fresh_def getRefreshToken_def getAccessToken_def js_or_def
          truthy_def)
  from refresh_replaces_access_token_only [OF idle tok surjective_pairing] idle tok old
  show ?thesis
    by (simp add: token2_def)
qed

section \<open>Where a login stores the pair\<close>





text \<open>
  The statement above is about the call of \<open>APIClient.login\<close> only. The
  second-factor step of the login form writes the verified pair to
  \<open>localStorage\<close> whatever the flag was: after a login with remember-me and a
  verified code the provisional pair is in the cookies, the verified pair is in
  \<open>localStorage\<close>, and \<open>getAccessToken\<close> returns the provisional token.
\<close>

lemma second_factor_login_fills_both_mediums:
  "cookie_access_token (snd second_factor_started) = Some ''a1'' \<and>
   local_access_token (snd second_factor_started) = None \<and>
   cookie_access_token (snd (handle2FASubmit ''123456'' login_accepted second_factor_started))
     = Some ''a1'' \<and>
   cookie_refresh_token (snd (handle2FASubmit ''123456'' login_accepted second_factor_started))
     = Some ''r1'' \<and>
   local_access_token (snd (handle2FASubmit ''123456'' login_accepted second_factor_started))
     = Some ''a2'' \<and>
   local_refresh_token (snd (handle2FASubmit ''123456'' login_accepted second_factor_started))
     = Some ''r2'' \<and>
   getAccessToken (snd (handle2FASubmit ''123456'' login_accepted second_factor_started))
     = Some ''a1''"
  by (simp add: second_factor_started_def onSubmit_def handle2FASubmit_def apiClient_login_def
        login2FA_def client_request_def dispatch_def setTokens_def remember_login_def
        second_factor_required_def login_accepted_def blank_form_def fresh_def token1_def
        token2_def getAccessToken_def js_or_def truthy_def Let_def)

section \<open>Retry after an authorization failure\<close>

lemma refreshAccessToken_frame:
  assumes "refreshAccessToken r s = (s', x)"
  shows "store s' = store s \<and>
         (sent s' = sent s \<or>
          sent s' = sent s @ [\<lparr>url = ''/auth/refresh'', authorization = attach s None,
                                retry = False, body_refresh_token = getRefreshToken s\<rparr>])"
  using assms
  by (auto simp: refreshAccessToken_def refreshAccessToken_call_def refreshAccessToken_settle_def
        dispatch_def clearTokens_def Let_def
        split: option.splits if_splits reply.splits)

lemma client_request_store:
  assumes "client_request u be s = (s', out)"
  shows "store s' = store s"
proof (cases "reply_first be = HttpError 401")
  case False
  with assms show ?thesis
    by (auto simp: client_request_def dispatch_def Let_def split: reply.splits if_splits)
next
  case True
  obtain s2 x where r: "refreshAccessToken (reply_refresh be) (dispatch u None False None s) = (s2, x)"
    by (cases "refreshAccessToken (reply_refresh be) (dispatch u None False None s)")
  from refreshAccessToken_frame [OF r] have "store s2 = store s"
    by (simp add: dispatch_def)
  with assms True r show ?thesis
    by (auto simp: client_request_def dispatch_def Let_def
          split: reply.splits if_splits settled.splits)
qed

lemma client_request_sent:
  assumes "client_request u be s = (s', out)" and "u \<noteq> ''/auth/refresh''"
  shows "\<exists>new. sent s' = sent s @ new \<and> length (filter (\<lambda>r. url r = u) new) \<le> 2 \<and>
               length (filter (\<lambda>r. url r = u \<and> retry r) new) \<le> 1"
proof (cases "reply_first be = HttpError 401")
  case False
  with assms have "sent s' = sent s @ [\<lparr>url = u, authorization = attach s None,
                                retry = False, body_refresh_token = None\<rparr>]"
    by (auto simp: client_request_def dispatch_def Let_def split: reply.splits if_splits)
  then show ?thesis
    by simp
next
  case True
  define s1 where "s1 = dispatch u None False None s"
  obtain s2 x where r: "refreshAccessToken (reply_refresh be) s1 = (s2, x)"
    by (cases "refreshAccessToken (reply_refresh be) s1")
  have s1: "sent s1 = sent s @ [\<lparr>url = u, authorization = attach s None,
                                retry = False, body_refresh_token = None\<rparr>]"
    by (simp add: s1_def dispatch_def)
  from refreshAccessToken_frame [OF r] assms(2)
  obtain mid where s2: "sent s2 = sent s1 @ mid" and mid: "\<forall>r\<in>set mid. url r \<noteq> u"
    by auto
  have "sent s' = sent s2 \<or>
        (\<exists>h. sent s' = sent s2 @ [\<lparr>url = u, authorization = h, retry = True,
                                    body_refresh_token = None\<rparr>])"
    using assms(1) unfolding client_request_def Let_def s1_def [symmetric]
    by (auto simp: True r dispatch_def Let_def split: settled.splits if_splits reply.splits)
  moreover have "filter (\<lambda>r. url r = u) mid = []"
    and "filter (\<lambda>r. url r = u \<and> retry r) mid = []"
    using mid by (simp_all add: filter_empty_conv)
  ultimately show ?thesis
    using s1 s2 by auto
qed

text \<open>
  C5, as stated, fails: the request is refused with 401, the exchange succeeds, the
  request sent again is refused with 401. The caller receives the 401, but nothing
  logs out: the store still holds the user and the tokens are still stored.
\<close>

theorem second_refusal_keeps_session_counterexample:
  "snd (client_request ''/users/'' refused_twice session) = Rejected (Status 401) \<and>
   isAuthenticated (store (fst (client_request ''/users/'' refused_twice session))) \<and>
   user (store (fst (client_request ''/users/'' refused_twice session))) = Some staff \<and>
   getAccessToken (fst (client_request ''/users/'' refused_twice session)) = Some ''a2'' \<and>
   getRefreshToken (fst (client_request ''/users/'' refused_twice session)) = Some ''r1''"
  by (simp add: client_request_def refreshAccessToken_def refreshAccessToken_call_def
        refreshAccessToken_settle_def dispatch_def refused_twice_def session_def fresh_def
        token2_def login_def initial_state_def getAccessToken_def getRefreshToken_def
        js_or_def truthy_def Let_def)

text \<open>
  C5, amended. A call never changes the auth store, sends its request at most
  twice and at most once with the retry mark. When the first answer is a 401, a
  refresh token is stored, no exchange is in flight and the exchange returns a
  non-empty access token, exactly three requests are sent: the request, the
  exchange, and the request once more with the new access token; the caller
  receives the outcome of that second attempt (a second 401 as the error), and the
  new access token stays stored beside the old refresh token.
\<close>

theorem retry_once:
  "(client_request u be s = (s', out) \<and> u \<noteq> ''/auth/refresh'' \<longrightarrow>
      store s' = store s \<and>
      (\<exists>new. sent s' = sent s @ new \<and> length (filter (\<lambda>r. url r = u) new) \<le> 2 \<and>
             length (filter (\<lambda>r. url r = u \<and> retry r) new) \<le> 1)) \<and>
   (client_request u be s = (s', out) \<and> refreshPromise s = None \<and>
    truthy (getRefreshToken s) \<and> reply_first be = HttpError 401 \<and>
    reply_refresh be = Ok data \<and> access_token data \<noteq> [] \<longrightarrow>
      sent s' = sent s @
        [\<lparr>url = u, authorization = attach s None, retry = False, body_refresh_token = None\<rparr>,
         \<lparr>url = ''/auth/refresh'', authorization = attach s None, retry = False,
          body_refresh_token = getRefreshToken s\<rparr>,
         \<lparr>url = u, authorization = Some (access_token data), retry = True,
          body_refresh_token = None\<rparr>] \<and>
      out = (case reply_retry be of
               Ok v \<Rightarrow> Resolved v
             | HttpError status \<Rightarrow> Rejected (Status status)
             | NetworkError \<Rightarrow> Rejected Network) \<and>
      store s' = store s \<and>
      getAccessToken s' = Some (access_token data) \<and>
      getRefreshToken s' = getRefreshToken s)"
proof (intro conjI impI)
  assume h: "client_request u be s = (s', out) \<and> u \<noteq> ''/auth/refresh''"
  then have run: "client_request u be s = (s', out)" and u: "u \<noteq> ''/auth/refresh''"
    by simp_all
  from run show "store s' = store s"
    by (rule client_request_store)
  from run u show "\<exists>new. sent s' = sent s @ new \<and> length (filter (\<lambda>r. url r = u) new) \<le> 2 \<and>
             length (filter (\<lambda>r. url r = u \<and> retry r) new) \<le> 1"
    by (rule client_request_sent)
next
  assume h: "client_request u be s = (s', out) \<and> refreshPromise s = None \<and>
    truthy (getRefreshToken s) \<and> reply_first be = HttpError 401 \<and>
    reply_refresh be = Ok data \<and> access_token data \<noteq> []"
  define s1 where "s1 = dispatch u None False None s"
  have idle: "refreshPromise s1 = None" and tok: "truthy (getRefreshToken s1)"
    and same: "getRefreshToken s1 = getRefreshToken s" "attach s1 None = attach s None"
    and s1: "sent s1 = sent s @ [\<lparr>url = u, authorization = attach s None, retry = False,
                                 body_refresh_token = None\<rparr>]"
    and st1: "store s1 = store s"
    using h by (simp_all add: s1_def dispatch_def getRefreshToken_def attach_def getAccessToken_def)
  obtain s2 x where r: "refreshAccessToken (Ok data) s1 = (s2, x)"
    by (cases "refreshAccessToken (Ok data) s1")
  from refreshAccessToken_succeeds [OF idle tok r] h
  have x: "x = Settled (Some (access_token data))"
    and acc: "getAccessToken s2 = Some (access_token data)"
    and ref: "getRefreshToken s2 = getRefreshToken s1"
    and st2: "store s2 = store s1"
    by simp_all
  have s2: "sent s2 = sent s1 @ [\<lparr>url = ''/auth/refresh'', authorization = attach s1 None,
                                 retry = False, body_refresh_token = getRefreshToken s1\<rparr>]"
    using r unfolding refreshAccessToken_idle [OF idle tok]
    by (auto simp: refreshAccessToken_settle_def dispatch_def Let_def)
  define s3 where "s3 = dispatch u (Some (access_token data)) True None s2"
  have run: "(s', out) = (s3, case reply_retry be of
               Ok v \<Rightarrow> Resolved v
             | HttpError status \<Rightarrow> Rejected (Status status)
             | NetworkError \<Rightarrow> Rejected Network)"
  proof -
    from h have first: "reply_first be = HttpError 401" and second: "reply_refresh be = Ok data"
      and new: "truthy (Some (access_token data))"
      and run: "client_request u be s = (s', out)"
      by (simp_all add: truthy_def)
    from run [symmetric] show ?thesis
      unfolding client_request_def Let_def s1_def [symmetric]
      by (simp add: first second r x new s3_def split: reply.splits)
  qed
  have s3: "sent s3 = sent s2 @ [\<lparr>url = u, authorization = Some (access_token data),
                                 retry = True, body_refresh_token = None\<rparr>]"
    and keep: "getAccessToken s3 = getAccessToken s2" "getRefreshToken s3 = getRefreshToken s2"
      "store s3 = store s2"
    using h acc
    by (simp_all add: s3_def dispatch_def attach_def truthy_def getAccessToken_def
          getRefreshToken_def)
  from run show "out = (case reply_retry be of
               Ok v \<Rightarrow> Resolved v
             | HttpError status \<Rightarrow> Rejected (Status status)
             | NetworkError \<Rightarrow> Rejected Network)"
    by simp
  from run have s': "s' = s3"
    by simp
  show "sent s' = sent s @
        [\<lparr>url = u, authorization = attach s None, retry = False, body_refresh_token = None\<rparr>,
         \<lparr>url = ''/auth/refresh'', authorization = attach s None, retry = False,
          body_refresh_token = getRefreshToken s\<rparr>,
         \<lparr>url = u, authorization = Some (access_token data), retry = True,
          body_refresh_token = None\<rparr>]"
    by (simp add: s' s3 s2 s1 same)
  show "store s' = store s"
    by (simp add: s' keep st2 st1)
  show "getAccessToken s' = Some (access_token data)"
    by (simp add: s' keep acc)
  show "getRefreshToken s' = getRefreshToken s"
    by (simp add: s' keep ref same)
qed

theorem retry_once_witness:
  "snd (client_request ''/users/'' refused_twice session) = Rejected (Status 401) \<and>
   map url (sent (fst (client_request ''/users/'' refused_twice session))) =
     [''/users/'', ''/auth/refresh'', ''/users/''] \<and>
   map authorization (sent (fst (client_request ''/users/'' refused_twice session))) =
     [Some ''a1'', Some ''a1'', Some ''a2''] \<and>
   map retry (sent (fst (client_request ''/users/'' refused_twice session))) =
     [False, False, True] \<and>
   store (fst (client_request ''/users/'' refused_twice session)) = store session"
proof -
  have pre: "refreshPromise session = None" "truthy (getRefreshToken session)"
    "reply_first refused_twice = HttpError 401" "reply_refresh refused_twice = Ok token2"
    "access_token token2 \<noteq> []" "reply_retry refused_twice = HttpError 401"
    "sent session = []" "attach session None = Some ''a1''"
    by (simp_all add: session_def fresh_def refused_twice_def token2_def getRefreshToken_def
          attach_def getAccessToken_def js_or_def truthy_def)
  from retry_once [of "''/users/''" refused_twice session
         "fst (client_request ''/users/'' refused_twice session)"
         "snd (client_request ''/users/'' refused_twice session)" token2] pre
  show ?thesis
    by (simp add: token2_def)
qed

section \<open>A refused refresh\<close>

text \<open>
  C6 at a failing input: \<open>staff\<close> is logged in, a request is refused with 401 and
  the backend refuses the exchange with 403. One exchange is sent, both mediums
  are cleared and the caller receives the 401, but the store still says
  authenticated and still holds the user.
\<close>

theorem refused_refresh_leaves_store_authenticated:
  "snd (client_request ''/users/'' refresh_refused session) = Rejected (Status 401) \<and>
   exchanges (fst (client_request ''/users/'' refresh_refused session)) = 1 \<and>
   getAccessToken (fst (client_request ''/users/'' refresh_refused session)) = None \<and>
   getRefreshToken (fst (client_request ''/users/'' refresh_refused session)) = None \<and>
   isAuthenticated (store (fst (client_request ''/users/'' refresh_refused session))) \<and>
   user (store (fst (client_request ''/users/'' refresh_refused session))) = Some staff"
  by (simp add: client_request_def refreshAccessToken_def refreshAccessToken_call_def
        refreshAccessToken_settle_def dispatch_def clearTokens_def refresh_refused_def
        session_def fresh_def exchanges_def login_def initial_state_def getAccessToken_def
        getRefreshToken_def js_or_def truthy_def Let_def)

section \<open>Second-factor gating\<close>

lemma apiClient_login_store:
  assumes "apiClient_login credentials be s = (s', out)"
  shows "store s' = store s"
proof -
  obtain s1 o1 where r: "client_request ''/auth/login'' be s = (s1, o1)"
    by (cases "client_request ''/auth/login'' be s")
  from client_request_store [OF r] have "store s1 = store s" .
  with assms r show ?thesis
    by (auto simp: apiClient_login_def setTokens_def split: outcome.splits)
qed

lemma onSubmit_required:
  assumes "apiClient_login data be s = (s', Resolved response)"
    and "message response = ''Two-factor authentication required''"
  shows "onSubmit data be (f, s) =
           (f\<lparr>form_isLoading := False, show2FA := True,
              tempToken := access_token (resp_token response)\<rparr>, s')"
  using assms by (simp add: onSubmit_def)

lemma handle2FASubmit_store:
  assumes "\<not> is_Resolved (snd (login2FA code be (s\<lparr>local_access_token := Some (tempToken f)\<rparr>)))"
  shows "store (snd (handle2FASubmit code be (f, s))) = store s \<and>
         show2FA (fst (handle2FASubmit code be (f, s))) = show2FA f"
proof -
  obtain s2 out where r: "client_request ''/auth/login/2fa'' be
      (s\<lparr>local_access_token := Some (tempToken f)\<rparr>) = (s2, out)"
    by (cases "client_request ''/auth/login/2fa'' be (s\<lparr>local_access_token := Some (tempToken f)\<rparr>)")
  from client_request_store [OF r] have "store s2 = store s"
    by simp
  with assms r show ?thesis
    by (cases out) (simp_all add: handle2FASubmit_def login2FA_def Let_def)
qed

lemma unverified_codes_store:
  "unverified_codes codes fa = Some fa' \<Longrightarrow>
   store (snd fa') = store (snd fa) \<and> show2FA (fst fa') = show2FA (fst fa)"
proof (induction codes arbitrary: fa)
  case Nil
  then show ?case by simp
next
  case (Cons c codes)
  obtain code be where c: "c = (code, be)"
    by (cases c)
  obtain f s where fa: "fa = (f, s)"
    by (cases fa)
  from Cons.prems
  have failed: "\<not> is_Resolved (snd (login2FA code be (s\<lparr>local_access_token := Some (tempToken f)\<rparr>)))"
    and rest: "unverified_codes codes (handle2FASubmit code be (f, s)) = Some fa'"
    by (simp_all add: c fa split: if_splits)
  from Cons.IH [OF rest] handle2FASubmit_store [OF failed]
  show ?case
    by (simp add: fa)
qed

text \<open>
  C3. When \<open>onSubmit\<close> runs with no user in the store and the login call resolves
  with the message that asks for the second factor, then in the state reached, and
  in every state reached from it by codes that are not verified, the code form is
  shown, the store's user is still null, and \<open>hasPermission\<close> is false for every
  name, whatever the identity in the login response holds.
\<close>

theorem second_factor_gating:
  assumes "user (store s0) = None"
    and "apiClient_login data be s0 = (s1, Resolved response)"
    and "message response = ''Two-factor authentication required''"
    and "unverified_codes codes (onSubmit data be (f0, s0)) = Some (f, s)"
  shows "show2FA f \<and> user (store s) = None \<and> \<not> hasPermission (store s) name"
proof -
  from unverified_codes_store [OF assms(4)]
  have "store s = store s1" and "show2FA f"
    by (simp_all add: onSubmit_required [OF assms(2,3)])
  moreover from apiClient_login_store [OF assms(2)] assms(1)
  have "user (store s1) = None"
    by simp
  ultimately show ?thesis
    by (simp add: hasPermission_def)
qed

theorem second_factor_gating_witness:
  "is_superuser root \<and>
   unverified_codes [(''000000'', code_rejected)]
      (onSubmit plain_login second_factor_required (blank_form, fresh)) =
     Some (handle2FASubmit ''000000'' code_rejected
             (onSubmit plain_login second_factor_required (blank_form, fresh))) \<and>
   user (store (snd (handle2FASubmit ''000000'' code_rejected
        (onSubmit plain_login second_factor_required (blank_form, fresh))))) = None \<and>
   \<not> hasPermission
       (store (snd (handle2FASubmit ''000000'' code_rejected
          (onSubmit plain_login second_factor_required (blank_form, fresh)))))
       ''users.delete''"
proof -
  define resp where "resp = \<lparr>resp_user = root, resp_token = token1,
                         message = ''Two-factor authentication required''\<rparr>"
  define asked where "asked = onSubmit plain_login second_factor_required (blank_form, fresh)"
  define failed where "failed = handle2FASubmit ''000000'' code_rejected asked"
  have nobody: "user (store fresh) = None"
    by (simp add: fresh_def initial_state_def)
  have "snd (apiClient_login plain_login second_factor_required fresh) = Resolved resp"
    by (simp add: apiClient_login_def client_request_def second_factor_required_def resp_def
          Let_def)
  then have run: "apiClient_login plain_login second_factor_required fresh =
      (fst (apiClient_login plain_login second_factor_required fresh), Resolved resp)"
    by (metis prod.collapse)
  have msg: "message resp = ''Two-factor authentication required''"
    by (simp add: resp_def)
  have "\<not> is_Resolved (snd (login2FA ''000000'' code_rejected
           ((snd asked)\<lparr>local_access_token := Some (tempToken (fst asked))\<rparr>)))"
    by (simp add: login2FA_def client_request_def code_rejected_def Let_def)
  then have codes: "unverified_codes [(''000000'', code_rejected)] asked = Some (fst failed, snd failed)"
    by (simp add: failed_def)
  from second_factor_gating [OF nobody run msg codes [unfolded asked_def], of "''users.delete''"]
    codes
  show ?thesis
    by (simp add: failed_def asked_def root_def)
qed

section \<open>Session bootstrap at start\<close>

text \<open>
  What holds whenever \<open>initializeAuth\<close> comes to its end: the loading flag is
  cleared and the store is consistent; without a token the user is null and no
  request was sent; with a token, the user is the one the who-am-I call resolved
  with, or the call was rejected, the user is null and both mediums are empty.
\<close>

lemma initializeAuth_settled:
  assumes "initializeAuth be s = (s', Settled ())"
  shows "\<not> isLoading (store s') \<and> consistent (store s') \<and>
         (\<not> truthy (js_or (local_access_token s) (document_cookie_access_token s)) \<longrightarrow>
            user (store s') = None \<and> sent s' = sent s) \<and>
         (truthy (js_or (local_access_token s) (document_cookie_access_token s)) \<longrightarrow>
            (case snd (getCurrentUser be (s\<lparr>store := setLoading True (store s)\<rparr>)) of
               Resolved u \<Rightarrow> user (store s') = Some u
             | Rejected e \<Rightarrow>
                 user (store s') = None \<and>
                 local_access_token s' = None \<and> local_refresh_token s' = None \<and>
                 cookie_access_token s' = None \<and> cookie_refresh_token s' = None
             | Pending \<Rightarrow> False))"
  using assms
  by (auto simp: initializeAuth_def Let_def consistent_def setUser_def setLoading_def
        document_cookie_access_token_def
        split: if_splits prod.splits outcome.splits)

text \<open>
  C9 at a failing input: the page starts with the session of \<open>staff\<close> stored, the
  who-am-I call is refused with 401 and the exchange is refused with 401 as well.
  \<open>initializeAuth\<close> never comes to its end: the loading flag stays set, the
  user stays in the store and the tokens stay stored.
\<close>

theorem bootstrap_never_completes:
  "truthy (getAccessToken session) \<and>
   snd (initializeAuth refresh_unauthorized session) = NeverSettles \<and>
   isLoading (store (fst (initializeAuth refresh_unauthorized session))) \<and>
   user (store (fst (initializeAuth refresh_unauthorized session))) = Some staff \<and>
   getAccessToken (fst (initializeAuth refresh_unauthorized session)) = Some ''a1'' \<and>
   getRefreshToken (fst (initializeAuth refresh_unauthorized session)) = Some ''r1''"
  by (simp add: initializeAuth_def getCurrentUser_def client_request_def refreshAccessToken_def
        refreshAccessToken_call_def refreshAccessToken_settle_def dispatch_def
        refresh_unauthorized_def session_def fresh_def login_def initial_state_def
        setLoading_def document_cookie_access_token_def getAccessToken_def getRefreshToken_def
        js_or_def truthy_def Let_def)

end
